theory Spec2Isabelle
  imports Complex_Main
begin

text \<open>
  A model of the field classes of leaflet-canvaslayer-field (Vector, Field, ScalarField,
  VectorField, in \<open>dist/leaflet-canvaslayer-field.js\<close>) and of the particle step of the
  animation layer \<open>L.CanvasLayer.VectorFieldAnim\<close>, with the properties of the
  specification that concern them. Each function below carries the name of the method
  it models, without the leading underscore of the private ones.
\<close>

section \<open>Values\<close>

text \<open>
  A JavaScript number is modelled as a real number (rounding, NaN and the infinities
  are left out), an integer index as an \<open>int\<close>. A grid cell, an array entry or the
  result of a query is a \<open>jsval\<close>: \<open>Null\<close> is JavaScript's null, \<open>Undefined\<close> is what
  reading an array outside its bounds gives, \<open>Val a\<close> is the value \<open>a\<close>.
  The only exception the modelled code can throw is the TypeError of reading a
  property of undefined.
\<close>

datatype 'a jsval = Undefined | Null | Val 'a

datatype error = TypeError

text \<open>\<open>a[k]\<close> for an array \<open>a\<close> and an integer \<open>k\<close>; \<open>None\<close> stands for undefined.\<close>

definition jsIndex :: "'a list \<Rightarrow> int \<Rightarrow> 'a option" where
  "jsIndex xs k = (if 0 \<le> k \<and> k < int (length xs) then Some (xs ! nat k) else None)"

text \<open>\<open>row[k]\<close> for an array of values and nulls, undefined outside the array.\<close>

definition cellOf :: "'a jsval list \<Rightarrow> int \<Rightarrow> 'a jsval" where
  "cellOf row k = (case jsIndex row k of None \<Rightarrow> Undefined | Some z \<Rightarrow> z)"

text \<open>\<open>x | 0\<close>: truncation towards zero, then wrap-around to a signed 32-bit integer.\<close>

definition toInt32 :: "real \<Rightarrow> int" where
  "toInt32 r =
     (let n = (if 0 \<le> r then \<lfloor>r\<rfloor> else \<lceil>r\<rceil>)
      in (n + 2147483648) mod 4294967296 - 2147483648)"

section \<open>Vector\<close>

record Vector =
  u :: real
  v :: real

definition magnitude :: "Vector \<Rightarrow> real" where
  "magnitude vec = sqrt (u vec * u vec + v vec * v vec)"

section \<open>Field\<close>

text \<open>
  The descriptor a field is built from. \<open>ScalarParams\<close> adds the flat array \<open>zs\<close>,
  \<open>VectorParams\<close> the flat arrays \<open>us\<close> and \<open>vs\<close>.
\<close>

record Params =
  nCols :: int
  nRows :: int
  xllCorner :: real
  yllCorner :: real
  cellXSize :: real
  cellYSize :: real

record ScalarParams = Params +
  zs :: "real jsval list"

record VectorParams = Params +
  us :: "real jsval list"
  vs :: "real jsval list"

text \<open>
  The attributes of class Field. \<open>inFilter\<close> and \<open>spatialMask\<close> are \<open>None\<close> when the
  source holds null. The mask is kept as the predicate that the point-in-polygon test
  of the external library computes for it. The attribute \<open>range\<close> (minimum and maximum,
  computed with the external d3 library) is not part of this development: none of the
  functions below reads it.
\<close>

record 'a Field = Params +
  xurCorner :: real
  yurCorner :: real
  grid :: "'a jsval list list"
  isContinuous :: bool
  longitudeNeedsToBeWrapped :: bool
  inFilter :: "('a jsval \<Rightarrow> bool) option"
  spatialMask :: "(real \<Rightarrow> real \<Rightarrow> bool) option"

text \<open>The constructor of Field; the grid is empty until a subclass builds it.\<close>

definition Field_new :: "'z Params_scheme \<Rightarrow> 'a Field" where
  "Field_new params =
     (let xur = xllCorner params + real_of_int (nCols params) * cellXSize params;
          yur = yllCorner params + real_of_int (nRows params) * cellYSize params
      in \<lparr> nCols = nCols params, nRows = nRows params,
           xllCorner = xllCorner params, yllCorner = yllCorner params,
           cellXSize = cellXSize params, cellYSize = cellYSize params,
           xurCorner = xur, yurCorner = yur,
           grid = [],
           isContinuous = (xur - xllCorner params \<ge> 360),
           longitudeNeedsToBeWrapped = (xur > 180),
           inFilter = None, spatialMask = None \<rparr>)"

text \<open>
  \<open>setFilter\<close> stores the filter (null clears it); the source then recomputes the
  attribute \<open>range\<close>, which is not modelled.
\<close>

definition setFilter ::
  "('a jsval \<Rightarrow> bool) option \<Rightarrow> ('a, 'z) Field_scheme \<Rightarrow> ('a, 'z) Field_scheme" where
  "setFilter f fld = fld\<lparr>inFilter := f\<rparr>"

definition setSpatialMask ::
  "(real \<Rightarrow> real \<Rightarrow> bool) option \<Rightarrow> ('a, 'z) Field_scheme \<Rightarrow> ('a, 'z) Field_scheme" where
  "setSpatialMask m fld = fld\<lparr>spatialMask := m\<rparr>"

definition getWrappedLongitudes :: "('a, 'z) Field_scheme \<Rightarrow> real \<times> real" where
  "getWrappedLongitudes fld =
     (if longitudeNeedsToBeWrapped fld then
        (if isContinuous fld then (- 180, 180)
         else (xllCorner fld - 360, xurCorner fld - 360))
      else (xllCorner fld, xurCorner fld))"

definition extent :: "('a, 'z) Field_scheme \<Rightarrow> real list" where
  "extent fld =
     (let (xmin, xmax) = getWrappedLongitudes fld
      in [xmin, yllCorner fld, xmax, yurCorner fld])"

definition pointInExtent :: "('a, 'z) Field_scheme \<Rightarrow> real \<Rightarrow> real \<Rightarrow> bool" where
  "pointInExtent fld lon lat =
     (let (xmin, xmax) = getWrappedLongitudes fld;
          longitudeIn = (lon \<ge> xmin \<and> lon \<le> xmax);
          latitudeIn = (lat \<ge> yllCorner fld \<and> lat \<le> yurCorner fld)
      in longitudeIn \<and> latitudeIn)"

definition contains :: "('a, 'z) Field_scheme \<Rightarrow> real \<Rightarrow> real \<Rightarrow> bool" where
  "contains fld lon lat =
     (case spatialMask fld of
        Some msk \<Rightarrow> msk lon lat
      | None \<Rightarrow> pointInExtent fld lon lat)"

definition notContains :: "('a, 'z) Field_scheme \<Rightarrow> real \<Rightarrow> real \<Rightarrow> bool" where
  "notContains fld lon lat = (\<not> contains fld lon lat)"

definition getDecimalIndexes :: "('a, 'z) Field_scheme \<Rightarrow> real \<Rightarrow> real \<Rightarrow> real \<times> real" where
  "getDecimalIndexes fld lon lat =
     (let lon' = (if longitudeNeedsToBeWrapped fld \<and> lon < xllCorner fld
                  then lon + 360 else lon);
          i = (lon' - xllCorner fld) / cellXSize fld;
          j = (yurCorner fld - lat) / cellYSize fld
      in (i, j))"

definition clampColumnIndex :: "('a, 'z) Field_scheme \<Rightarrow> int \<Rightarrow> int" where
  "clampColumnIndex fld ii =
     (let i = (if ii < 0 then 0 else ii);
          maxCol = nCols fld - 1
      in if ii > maxCol then maxCol else i)"

definition clampRowIndex :: "('a, 'z) Field_scheme \<Rightarrow> int \<Rightarrow> int" where
  "clampRowIndex fld jj =
     (let j = (if jj < 0 then 0 else jj);
          maxRow = nRows fld - 1
      in if jj > maxRow then maxRow else j)"

definition isValid :: "'a jsval \<Rightarrow> bool" where
  "isValid z = (z \<noteq> Null \<and> z \<noteq> Undefined)"

definition getFourSurroundingIndexes ::
  "('a, 'z) Field_scheme \<Rightarrow> real \<Rightarrow> real \<Rightarrow> int \<times> int \<times> int \<times> int" where
  "getFourSurroundingIndexes fld i j =
     (let fi = \<lfloor>i\<rfloor>;
          ci = fi + 1;
          ci = (if isContinuous fld \<and> ci \<ge> nCols fld then 0 else ci);
          ci = clampColumnIndex fld ci;
          fj = clampRowIndex fld \<lfloor>j\<rfloor>;
          cj = clampRowIndex fld (fj + 1)
      in (fi, ci, fj, cj))"

text \<open>
  The four values are returned unwrapped: the source returns them only after
  \<open>_isValid\<close> has held of each, that is when each is a \<open>Val\<close>.
\<close>

definition getFourSurroundingValues ::
  "('a, 'z) Field_scheme \<Rightarrow> int \<Rightarrow> int \<Rightarrow> int \<Rightarrow> int \<Rightarrow> ('a \<times> 'a \<times> 'a \<times> 'a) option" where
  "getFourSurroundingValues fld fi ci fj cj =
     (case jsIndex (grid fld) fj of
        None \<Rightarrow> None
      | Some row \<Rightarrow>
          (case (cellOf row fi, cellOf row ci, jsIndex (grid fld) cj) of
             (Val g00, Val g10, Some row') \<Rightarrow>
               (case (cellOf row' fi, cellOf row' ci) of
                  (Val g01, Val g11) \<Rightarrow> Some (g00, g10, g01, g11)
                | _ \<Rightarrow> None)
           | _ \<Rightarrow> None))"

text \<open>
  \<open>doInterpolation\<close> is the method \<open>_doInterpolation\<close> of the subclass.
\<close>

definition interpolatedValueAtIndexes ::
  "(real \<Rightarrow> real \<Rightarrow> 'a \<Rightarrow> 'a \<Rightarrow> 'a \<Rightarrow> 'a \<Rightarrow> 'a) \<Rightarrow> ('a, 'z) Field_scheme \<Rightarrow> real \<Rightarrow> real \<Rightarrow> 'a jsval" where
  "interpolatedValueAtIndexes doInterpolation fld i j =
     (let (fi, ci, fj, cj) = getFourSurroundingIndexes fld i j
      in case getFourSurroundingValues fld fi ci fj cj of
           Some (g00, g10, g01, g11) \<Rightarrow>
             Val (doInterpolation (i - real_of_int fi) (j - real_of_int fj) g00 g10 g01 g11)
         | None \<Rightarrow> Null)"

definition interpolatedValueAt ::
  "(real \<Rightarrow> real \<Rightarrow> 'a \<Rightarrow> 'a \<Rightarrow> 'a \<Rightarrow> 'a \<Rightarrow> 'a) \<Rightarrow> ('a, 'z) Field_scheme \<Rightarrow> real \<Rightarrow> real \<Rightarrow> 'a jsval" where
  "interpolatedValueAt doInterpolation fld lon lat =
     (if notContains fld lon lat then Null
      else (let (i, j) = getDecimalIndexes fld lon lat
            in interpolatedValueAtIndexes doInterpolation fld i j))"

text \<open>\<open>this.grid[j][i]\<close>: a TypeError when the row is undefined.\<close>

definition valueAtIndexes :: "('a, 'z) Field_scheme \<Rightarrow> int \<Rightarrow> int \<Rightarrow> error + 'a jsval" where
  "valueAtIndexes fld i j =
     (case jsIndex (grid fld) j of
        None \<Rightarrow> Inl TypeError
      | Some row \<Rightarrow> Inr (cellOf row i))"

definition valueAt :: "('a, 'z) Field_scheme \<Rightarrow> real \<Rightarrow> real \<Rightarrow> error + 'a jsval" where
  "valueAt fld lon lat =
     (if notContains fld lon lat then Inr Null
      else (let (i, j) = getDecimalIndexes fld lon lat;
                ii = \<lfloor>i\<rfloor>;
                jj = \<lfloor>j\<rfloor>;
                ci = clampColumnIndex fld ii;
                cj = clampRowIndex fld jj
            in case valueAtIndexes fld ci cj of
                 Inl e \<Rightarrow> Inl e
               | Inr val \<Rightarrow>
                   (case inFilter fld of
                      Some flt \<Rightarrow> if \<not> flt val then Inr Null else Inr val
                    | None \<Rightarrow> Inr val)))"

definition hasValueAt :: "('a, 'z) Field_scheme \<Rightarrow> real \<Rightarrow> real \<Rightarrow> error + bool" where
  "hasValueAt fld lon lat =
     (case valueAt fld lon lat of
        Inl e \<Rightarrow> Inl e
      | Inr val \<Rightarrow>
          (let hasValue = (val \<noteq> Null);
               included = (case inFilter fld of Some flt \<Rightarrow> flt val | None \<Rightarrow> True)
           in Inr (hasValue \<and> included)))"

definition longitudeAtX :: "('a, 'z) Field_scheme \<Rightarrow> int \<Rightarrow> real" where
  "longitudeAtX fld i =
     (let halfXPixel = cellXSize fld / 2;
          lon = xllCorner fld + halfXPixel + real_of_int i * cellXSize fld
      in if longitudeNeedsToBeWrapped fld then (if lon > 180 then lon - 360 else lon)
         else lon)"

definition latitudeAtY :: "('a, 'z) Field_scheme \<Rightarrow> int \<Rightarrow> real" where
  "latitudeAtY fld j =
     (let halfYPixel = cellYSize fld / 2
      in yurCorner fld - halfYPixel - real_of_int j * cellYSize fld)"

definition lonLatAtIndexes :: "('a, 'z) Field_scheme \<Rightarrow> int \<Rightarrow> int \<Rightarrow> real \<times> real" where
  "lonLatAtIndexes fld i j = (longitudeAtX fld i, latitudeAtY fld j)"

section \<open>ScalarField\<close>

text \<open>
  The two loops of \<open>_arrayTo2d\<close>. The counter \<open>p\<close> of the source, incremented with
  every cell, is \<open>j * nCols + i\<close> at the cell of row \<open>j\<close> and column \<open>i\<close>.
\<close>

definition arrayTo2d :: "'a jsval list \<Rightarrow> int \<Rightarrow> int \<Rightarrow> 'a jsval list list" where
  "arrayTo2d array nR nC =
     map (\<lambda>j. map (\<lambda>i. let z = cellOf array (j * nC + i)
                        in if isValid z then z else Null) [0..nC - 1]) [0..nR - 1]"

definition ScalarField_new :: "'z ScalarParams_scheme \<Rightarrow> real Field" where
  "ScalarField_new params =
     (let fld = Field_new params
      in fld\<lparr>grid := arrayTo2d (zs params) (nRows fld) (nCols fld)\<rparr>)"

definition doInterpolation_scalar ::
  "real \<Rightarrow> real \<Rightarrow> real \<Rightarrow> real \<Rightarrow> real \<Rightarrow> real \<Rightarrow> real" where
  "doInterpolation_scalar x y g00 g10 g01 g11 =
     (let rx = 1 - x;
          ry = 1 - y
      in g00 * rx * ry + g10 * x * ry + g01 * rx * y + g11 * x * y)"

section \<open>VectorField\<close>

definition arraysTo2d ::
  "real jsval list \<Rightarrow> real jsval list \<Rightarrow> int \<Rightarrow> int \<Rightarrow> Vector jsval list list" where
  "arraysTo2d uarr varr nR nC =
     map (\<lambda>j. map (\<lambda>i. case (cellOf uarr (j * nC + i), cellOf varr (j * nC + i)) of
                          (Val a, Val b) \<Rightarrow> Val \<lparr>u = a, v = b\<rparr>
                        | _ \<Rightarrow> Null) [0..nC - 1]) [0..nR - 1]"

definition VectorField_new :: "'z VectorParams_scheme \<Rightarrow> Vector Field" where
  "VectorField_new params =
     (let fld = Field_new params
      in fld\<lparr>grid := arraysTo2d (us params) (vs params) (nRows fld) (nCols fld)\<rparr>)"

definition doInterpolation_vector ::
  "real \<Rightarrow> real \<Rightarrow> Vector \<Rightarrow> Vector \<Rightarrow> Vector \<Rightarrow> Vector \<Rightarrow> Vector" where
  "doInterpolation_vector x y g00 g10 g01 g11 =
     (let rx = 1 - x;
          ry = 1 - y;
          a = rx * ry;
          b = x * ry;
          c = rx * y;
          d = x * y
      in \<lparr> u = u g00 * a + u g10 * b + u g01 * c + u g11 * d,
           v = v g00 * a + v g10 * b + v g01 * c + v g11 * d \<rparr>)"

section \<open>The particles of the animation\<close>

text \<open>
  A particle \<open>par\<close> of the animation layer: \<open>par_x\<close> is the attribute \<open>par.x\<close>, and so on.
  \<open>par_xt\<close>, \<open>par_yt\<close> and \<open>par_m\<close> are undefined until a step writes them.
  Of the layer's options the steps read \<open>maxAge\<close> and \<open>velocityScale\<close>.
\<close>

record Particle =
  par_x :: real
  par_y :: real
  par_xt :: "real jsval"
  par_yt :: "real jsval"
  par_m :: "real jsval"
  par_age :: int

record Options =
  maxAge :: int
  velocityScale :: real

text \<open>
  \<open>randomPosition\<close> of Field; the pair \<open>(r1, r2)\<close> holds the two results of
  \<open>Math.random()\<close>, numbers at least 0 and below 1.
\<close>

definition randomPosition ::
  "('a, 'z) Field_scheme \<Rightarrow> real \<times> real \<Rightarrow> Particle \<Rightarrow> Particle" where
  "randomPosition fld rnd o' =
     (let i = toInt32 (fst rnd * real_of_int (nCols fld));
          j = toInt32 (snd rnd * real_of_int (nRows fld))
      in o'\<lparr>par_x := longitudeAtX fld i, par_y := latitudeAtY fld j\<rparr>)"

text \<open>
  The body of the loop of \<open>_moveParticles\<close>, in its three statements: the restart of a
  particle that is too old, the sampling of the field, and the increment of the age.
\<close>

definition restart ::
  "Options \<Rightarrow> (Vector, 'z) Field_scheme \<Rightarrow> real \<times> real \<Rightarrow> Particle \<Rightarrow> Particle" where
  "restart opts fld rnd par =
     (if par_age par > maxAge opts
      then randomPosition fld rnd (par\<lparr>par_age := 0\<rparr>)
      else par)"

definition sample ::
  "Options \<Rightarrow> (Vector, 'z) Field_scheme \<Rightarrow> Particle \<Rightarrow> error + Particle" where
  "sample opts fld par =
     (case valueAt fld (par_x par) (par_y par) of
        Inl e \<Rightarrow> Inl e
      | Inr Null \<Rightarrow> Inr (par\<lparr>par_age := maxAge opts\<rparr>)
      | Inr Undefined \<Rightarrow> Inl TypeError
      | Inr (Val vector) \<Rightarrow>
          (let xt = par_x par + u vector * velocityScale opts;
               yt = par_y par + v vector * velocityScale opts
           in case hasValueAt fld xt yt of
                Inl e \<Rightarrow> Inl e
              | Inr True \<Rightarrow>
                  Inr (par\<lparr>par_xt := Val xt, par_yt := Val yt,
                           par_m := Val (magnitude vector)\<rparr>)
              | Inr False \<Rightarrow> Inr (par\<lparr>par_age := maxAge opts\<rparr>)))"

definition moveParticle ::
  "Options \<Rightarrow> (Vector, 'z) Field_scheme \<Rightarrow> real \<times> real \<Rightarrow> Particle \<Rightarrow> error + Particle" where
  "moveParticle opts fld rnd par =
     (case sample opts fld (restart opts fld rnd par) of
        Inl e \<Rightarrow> Inl e
      | Inr par' \<Rightarrow> Inr (par'\<lparr>par_age := par_age par' + 1\<rparr>))"

text \<open>
  \<open>_moveParticles\<close>: the loop over the pool. \<open>rnds k\<close> is the pair of random numbers
  at hand for the particle at position \<open>k\<close>; an exception ends the loop.
\<close>

fun moveParticles ::
  "Options \<Rightarrow> (Vector, 'z) Field_scheme \<Rightarrow> (nat \<Rightarrow> real \<times> real) \<Rightarrow> nat \<Rightarrow> Particle list
     \<Rightarrow> error + Particle list" where
  "moveParticles opts fld rnds k [] = Inr []"
| "moveParticles opts fld rnds k (par # paths) =
     (case moveParticle opts fld (rnds k) par of
        Inl e \<Rightarrow> Inl e
      | Inr par' \<Rightarrow>
          (case moveParticles opts fld rnds (Suc k) paths of
             Inl e \<Rightarrow> Inl e
           | Inr paths' \<Rightarrow> Inr (par' # paths')))"

section \<open>Well-formed fields\<close>

text \<open>
  The invariant of the data model: positive dimensions and cell sizes, and a grid of
  \<open>nRows\<close> rows of \<open>nCols\<close> cells each, every cell a value or null.
\<close>

definition wellFormed :: "('a, 'z) Field_scheme \<Rightarrow> bool" where
  "wellFormed fld \<longleftrightarrow>
     0 < nCols fld \<and> 0 < nRows fld \<and> 0 < cellXSize fld \<and> 0 < cellYSize fld \<and>
     length (grid fld) = nat (nRows fld) \<and>
     (\<forall>row \<in> set (grid fld). length row = nat (nCols fld) \<and> Undefined \<notin> set row)"

text \<open>
  The derived attributes are as the constructor of Field computes them from the
  dimensions, the lower left corner and the cell sizes.
\<close>

definition geometryDerived :: "('a, 'z) Field_scheme \<Rightarrow> bool" where
  "geometryDerived fld \<longleftrightarrow>
     xurCorner fld = xllCorner fld + real_of_int (nCols fld) * cellXSize fld \<and>
     yurCorner fld = yllCorner fld + real_of_int (nRows fld) * cellYSize fld \<and>
     isContinuous fld = (xurCorner fld - xllCorner fld \<ge> 360) \<and>
     longitudeNeedsToBeWrapped fld = (xurCorner fld > 180)"

text \<open>The value of the grid at row \<open>r\<close> and column \<open>c\<close>, undefined outside the grid.\<close>

definition gridAt :: "('a, 'z) Field_scheme \<Rightarrow> int \<Rightarrow> int \<Rightarrow> 'a jsval" where
  "gridAt fld r c = (case jsIndex (grid fld) r of None \<Rightarrow> Undefined | Some row \<Rightarrow> cellOf row c)"


section \<open>Example fields\<close>

text \<open>The 2 x 2 grid of the scenario: values 1, 2 in the top row and 3, 4 below.\<close>

definition grid2x2 :: "real Field" where
  "grid2x2 =
     ScalarField_new \<lparr> nCols = 2, nRows = 2, xllCorner = 0, yllCorner = 0,
                       cellXSize = 1, cellYSize = 1,
                       zs = [Val 1, Val 2, Val 3, Val 4] \<rparr>"

text \<open>
  A vector field of 2 rows and 3 columns, with no data in the last cell of the lower
  row.
\<close>

definition wind3x2 :: "Vector Field" where
  "wind3x2 =
     VectorField_new \<lparr> nCols = 3, nRows = 2, xllCorner = 0, yllCorner = 0,
                       cellXSize = 1, cellYSize = 1,
                       us = [Val 1, Val 3, Val 1, Val 1, Val 3, Null],
                       vs = [Val 0, Val 2, Val 0, Val 0, Val 2, Null] \<rparr>"

text \<open>
  Two scalar fields whose upper right longitude exceeds 180: \<open>globe2x1\<close> spans the
  longitudes 0 to 360, \<open>pacific2x1\<close> the longitudes 100 to 200.
\<close>

definition globe2x1 :: "real Field" where
  "globe2x1 =
     ScalarField_new \<lparr> nCols = 2, nRows = 1, xllCorner = 0, yllCorner = 0,
                       cellXSize = 180, cellYSize = 10,
                       zs = [Val 1, Val 2] \<rparr>"

definition pacific2x1 :: "real Field" where
  "pacific2x1 =
     ScalarField_new \<lparr> nCols = 2, nRows = 1, xllCorner = 100, yllCorner = 0,
                       cellXSize = 50, cellYSize = 10,
                       zs = [Val 1, Val 2] \<rparr>"

text \<open>
  Two descriptors whose flat arrays hold three values for a grid of 2 rows and 2
  columns.
\<close>

definition shortScalar :: ScalarParams where
  "shortScalar = \<lparr> nCols = 2, nRows = 2, xllCorner = 0, yllCorner = 0,
                    cellXSize = 1, cellYSize = 1,
                    zs = [Val 1, Val 2, Val 3] \<rparr>"

definition shortVector :: VectorParams where
  "shortVector = \<lparr> nCols = 2, nRows = 2, xllCorner = 0, yllCorner = 0,
                    cellXSize = 1, cellYSize = 1,
                    us = [Val 1, Val 2, Val 3],
                    vs = [Val 4, Val 5, Val 6] \<rparr>"

text \<open>
  The options of the animation as the source sets them by default, and three particles
  in the field \<open>wind3x2\<close>: one older than \<open>maxAge\<close>, one in the cell without data, and
  one on the right edge of the field, where the wind blows outwards.
\<close>

definition defaultOptions :: Options where
  "defaultOptions = \<lparr> maxAge = 200, velocityScale = 1 / 5000 \<rparr>"

definition oldParticle :: Particle where
  "oldParticle = \<lparr> par_x = 5/2, par_y = 1/2, par_xt = Undefined, par_yt = Undefined,
                    par_m = Undefined, par_age = 201 \<rparr>"

definition strandedParticle :: Particle where
  "strandedParticle = \<lparr> par_x = 5/2, par_y = 1/2, par_xt = Undefined, par_yt = Undefined,
                         par_m = Undefined, par_age = 5 \<rparr>"

definition edgeParticle :: Particle where
  "edgeParticle = \<lparr> par_x = 3, par_y = 3/2, par_xt = Undefined, par_yt = Undefined,
                     par_m = Undefined, par_age = 5 \<rparr>"

section \<open>Evaluation of the example fields\<close>

lemmas field_defs =
  valueAt_def hasValueAt_def interpolatedValueAt_def interpolatedValueAtIndexes_def
  notContains_def contains_def pointInExtent_def getWrappedLongitudes_def getDecimalIndexes_def
  clampColumnIndex_def clampRowIndex_def valueAtIndexes_def getFourSurroundingIndexes_def
  getFourSurroundingValues_def cellOf_def jsIndex_def

lemma grid2x2_eq:
  "grid2x2 = \<lparr> nCols = 2, nRows = 2, xllCorner = 0, yllCorner = 0, cellXSize = 1, cellYSize = 1,
      xurCorner = 2, yurCorner = 2, grid = [[Val 1, Val 2], [Val 3, Val 4]],
      isContinuous = False, longitudeNeedsToBeWrapped = False, inFilter = None,
      spatialMask = None \<rparr>"
  by (simp add: grid2x2_def ScalarField_new_def Field_new_def arrayTo2d_def cellOf_def jsIndex_def
      isValid_def upto.simps)

lemma wind3x2_eq:
  "wind3x2 = \<lparr> nCols = 3, nRows = 2, xllCorner = 0, yllCorner = 0, cellXSize = 1, cellYSize = 1,
      xurCorner = 3, yurCorner = 2,
      grid = [[Val \<lparr>u = 1, v = 0\<rparr>, Val \<lparr>u = 3, v = 2\<rparr>, Val \<lparr>u = 1, v = 0\<rparr>],
              [Val \<lparr>u = 1, v = 0\<rparr>, Val \<lparr>u = 3, v = 2\<rparr>, Null]],
      isContinuous = False, longitudeNeedsToBeWrapped = False, inFilter = None,
      spatialMask = None \<rparr>"
  by (simp add: wind3x2_def VectorField_new_def Field_new_def arraysTo2d_def cellOf_def jsIndex_def
      upto.simps)

lemma wellFormed_grid2x2: "wellFormed grid2x2"
  by (simp add: grid2x2_eq wellFormed_def)

lemma wellFormed_wind3x2: "wellFormed wind3x2"
  by (simp add: wind3x2_eq wellFormed_def)

lemma globe2x1_eq:
  "globe2x1 = \<lparr> nCols = 2, nRows = 1, xllCorner = 0, yllCorner = 0, cellXSize = 180, cellYSize = 10,
      xurCorner = 360, yurCorner = 10, grid = [[Val 1, Val 2]],
      isContinuous = True, longitudeNeedsToBeWrapped = True, inFilter = None,
      spatialMask = None \<rparr>"
  by (simp add: globe2x1_def ScalarField_new_def Field_new_def arrayTo2d_def cellOf_def jsIndex_def
      isValid_def upto.simps)

lemma pacific2x1_eq:
  "pacific2x1 = \<lparr> nCols = 2, nRows = 1, xllCorner = 100, yllCorner = 0, cellXSize = 50, cellYSize = 10,
      xurCorner = 200, yurCorner = 10, grid = [[Val 1, Val 2]],
      isContinuous = False, longitudeNeedsToBeWrapped = True, inFilter = None,
      spatialMask = None \<rparr>"
  by (simp add: pacific2x1_def ScalarField_new_def Field_new_def arrayTo2d_def cellOf_def jsIndex_def
      isValid_def upto.simps)

section \<open>Clamping and well-formed grids\<close>

lemma clampColumnIndex_bounds:
  "0 < nCols fld \<Longrightarrow> 0 \<le> clampColumnIndex fld k \<and> clampColumnIndex fld k < nCols fld"
  by (simp add: clampColumnIndex_def Let_def)

lemma clampRowIndex_bounds:
  "0 < nRows fld \<Longrightarrow> 0 \<le> clampRowIndex fld k \<and> clampRowIndex fld k < nRows fld"
  by (simp add: clampRowIndex_def Let_def)

lemma clampColumnIndex_id:
  "0 \<le> k \<Longrightarrow> k < nCols fld \<Longrightarrow> clampColumnIndex fld k = k"
  by (simp add: clampColumnIndex_def Let_def)

lemma clampRowIndex_id:
  "0 \<le> k \<Longrightarrow> k < nRows fld \<Longrightarrow> clampRowIndex fld k = k"
  by (simp add: clampRowIndex_def Let_def)

lemma isValid_iff: "isValid z \<longleftrightarrow> (\<exists>a. z = Val a)"
  by (cases z) (simp_all add: isValid_def)

lemma wellFormed_row:
  assumes "wellFormed fld" "0 \<le> r" "r < nRows fld"
  shows "\<exists>row. jsIndex (grid fld) r = Some row \<and> length row = nat (nCols fld) \<and> Undefined \<notin> set row"
proof -
  from assms have len: "nat r < length (grid fld)"
    by (simp add: wellFormed_def)
  then have "grid fld ! nat r \<in> set (grid fld)" by simp
  with assms(1) have "length (grid fld ! nat r) = nat (nCols fld) \<and> Undefined \<notin> set (grid fld ! nat r)"
    by (simp add: wellFormed_def)
  moreover from len assms(2) have "jsIndex (grid fld) r = Some (grid fld ! nat r)"
    by (simp add: jsIndex_def)
  ultimately show ?thesis by blast
qed

lemma wellFormed_cell:
  assumes "wellFormed fld" "0 \<le> r" "r < nRows fld" "0 \<le> c" "c < nCols fld"
  shows "gridAt fld r c \<noteq> Undefined \<and> valueAtIndexes fld c r = Inr (gridAt fld r c)"
proof -
  from wellFormed_row[OF assms(1-3)] obtain row where
    row: "jsIndex (grid fld) r = Some row" "length row = nat (nCols fld)" "Undefined \<notin> set row"
    by blast
  from row(2) assms(4,5) have "nat c < length row" by simp
  then have "row ! nat c \<in> set row" by simp
  with row(3) have "row ! nat c \<noteq> Undefined" by metis
  moreover from row(2) assms(4,5) have "cellOf row c = row ! nat c"
    by (simp add: cellOf_def jsIndex_def)
  ultimately show ?thesis
    using row(1) by (simp add: gridAt_def valueAtIndexes_def)
qed

text \<open>On a well-formed field \<open>valueAt\<close> throws no exception and never returns undefined.\<close>

lemma wellFormed_valueAt:
  assumes "wellFormed fld"
  shows "\<exists>z. valueAt fld lon lat = Inr z \<and> z \<noteq> Undefined"
proof (cases "notContains fld lon lat")
  case True
  then show ?thesis by (simp add: valueAt_def)
next
  case False
  obtain i j where ij: "getDecimalIndexes fld lon lat = (i, j)" by (cases "getDecimalIndexes fld lon lat")
  let ?ci = "clampColumnIndex fld \<lfloor>i\<rfloor>"
  let ?cj = "clampRowIndex fld \<lfloor>j\<rfloor>"
  from assms have pos: "0 < nCols fld" "0 < nRows fld" by (simp_all add: wellFormed_def)
  have cell: "gridAt fld ?cj ?ci \<noteq> Undefined \<and> valueAtIndexes fld ?ci ?cj = Inr (gridAt fld ?cj ?ci)"
    using wellFormed_cell[OF assms] clampColumnIndex_bounds[OF pos(1)] clampRowIndex_bounds[OF pos(2)]
    by blast
  show ?thesis
    using False ij cell by (simp add: valueAt_def split: option.split)
qed

lemma hasValueAt_of_valueAt:
  "valueAt fld lon lat = Inr z \<Longrightarrow> hasValueAt fld lon lat = Inr (z \<noteq> Null)"
  by (auto simp: hasValueAt_def valueAt_def Let_def split: if_splits prod.splits sum.splits option.splits)

section \<open>The filter and the interpolation\<close>

lemma filter_getWrappedLongitudes:
  "getWrappedLongitudes (fld\<lparr>inFilter := f\<rparr>) = getWrappedLongitudes fld"
  by (simp add: getWrappedLongitudes_def)

lemma filter_pointInExtent:
  "pointInExtent (fld\<lparr>inFilter := f\<rparr>) lon lat = pointInExtent fld lon lat"
  by (simp add: pointInExtent_def filter_getWrappedLongitudes)

lemma filter_contains:
  "contains (fld\<lparr>inFilter := f\<rparr>) lon lat = contains fld lon lat"
  by (simp add: contains_def filter_pointInExtent cong: option.case_cong)

lemma filter_getDecimalIndexes:
  "getDecimalIndexes (fld\<lparr>inFilter := f\<rparr>) lon lat = getDecimalIndexes fld lon lat"
  by (simp add: getDecimalIndexes_def)

lemma filter_clampColumnIndex:
  "clampColumnIndex (fld\<lparr>inFilter := f\<rparr>) k = clampColumnIndex fld k"
  by (simp add: clampColumnIndex_def)

lemma filter_clampRowIndex:
  "clampRowIndex (fld\<lparr>inFilter := f\<rparr>) k = clampRowIndex fld k"
  by (simp add: clampRowIndex_def)

lemma filter_getFourSurroundingIndexes:
  "getFourSurroundingIndexes (fld\<lparr>inFilter := f\<rparr>) i j = getFourSurroundingIndexes fld i j"
  by (simp add: getFourSurroundingIndexes_def filter_clampColumnIndex filter_clampRowIndex)

lemma filter_getFourSurroundingValues:
  "getFourSurroundingValues (fld\<lparr>inFilter := f\<rparr>) fi ci fj cj = getFourSurroundingValues fld fi ci fj cj"
  by (simp add: getFourSurroundingValues_def cong: option.case_cong)

lemma filter_interpolatedValueAtIndexes:
  "interpolatedValueAtIndexes di (fld\<lparr>inFilter := f\<rparr>) i j = interpolatedValueAtIndexes di fld i j"
  by (simp add: interpolatedValueAtIndexes_def filter_getFourSurroundingIndexes
      filter_getFourSurroundingValues)

lemma filter_interpolatedValueAt:
  "interpolatedValueAt di (fld\<lparr>inFilter := f\<rparr>) lon lat = interpolatedValueAt di fld lon lat"
  by (simp add: interpolatedValueAt_def notContains_def filter_contains filter_getDecimalIndexes
      filter_interpolatedValueAtIndexes cong: prod.case_cong)

section \<open>The derived geometry\<close>

lemma geometryDerived_Field_new: "geometryDerived (Field_new p)"
  by (simp add: geometryDerived_def Field_new_def Let_def)

lemma geometryDerived_ScalarField_new: "geometryDerived (ScalarField_new p)"
  using geometryDerived_Field_new[of p]
  by (simp add: geometryDerived_def ScalarField_new_def Let_def)

lemma geometryDerived_VectorField_new: "geometryDerived (VectorField_new p)"
  using geometryDerived_Field_new[of p]
  by (simp add: geometryDerived_def VectorField_new_def Let_def)

lemma geometryDerived_setFilter: "geometryDerived (setFilter f fld) = geometryDerived fld"
  by (simp add: geometryDerived_def setFilter_def)

lemma geometryDerived_setSpatialMask: "geometryDerived (setSpatialMask m fld) = geometryDerived fld"
  by (simp add: geometryDerived_def setSpatialMask_def)

section \<open>The interpolation in terms of the grid\<close>

lemma getFourSurroundingValues_gridAt:
  "getFourSurroundingValues fld fi ci fj cj =
     (case (gridAt fld fj fi, gridAt fld fj ci, gridAt fld cj fi, gridAt fld cj ci) of
        (Val g00, Val g10, Val g01, Val g11) \<Rightarrow> Some (g00, g10, g01, g11)
      | _ \<Rightarrow> None)"
  by (simp add: getFourSurroundingValues_def gridAt_def split: option.split jsval.split)

lemma clampColumnIndex_zero: "0 < nCols fld \<Longrightarrow> clampColumnIndex fld 0 = 0"
  by (simp add: clampColumnIndex_def)

lemma getFourSurroundingIndexes_eq:
  assumes "0 < nCols fld"
  shows "getFourSurroundingIndexes fld i j =
     (\<lfloor>i\<rfloor>,
      (if isContinuous fld \<and> nCols fld \<le> \<lfloor>i\<rfloor> + 1 then 0 else clampColumnIndex fld (\<lfloor>i\<rfloor> + 1)),
      clampRowIndex fld \<lfloor>j\<rfloor>,
      clampRowIndex fld (clampRowIndex fld \<lfloor>j\<rfloor> + 1))"
  using clampColumnIndex_zero[OF assms] by (simp add: getFourSurroundingIndexes_def Let_def)

lemma interpolatedValueAtIndexes_eq:
  assumes "0 < nCols fld"
  shows "interpolatedValueAtIndexes di fld i j =
     (let fi = \<lfloor>i\<rfloor>;
          ci = (if isContinuous fld \<and> nCols fld \<le> fi + 1 then 0 else clampColumnIndex fld (fi + 1));
          fj = clampRowIndex fld \<lfloor>j\<rfloor>;
          cj = clampRowIndex fld (fj + 1)
      in case (gridAt fld fj fi, gridAt fld fj ci, gridAt fld cj fi, gridAt fld cj ci) of
           (Val g00, Val g10, Val g01, Val g11) \<Rightarrow>
             Val (di (i - real_of_int fi) (j - real_of_int fj) g00 g10 g01 g11)
         | _ \<Rightarrow> Null)"
  unfolding interpolatedValueAtIndexes_def getFourSurroundingIndexes_eq[OF assms]
    getFourSurroundingValues_gridAt
  by (simp add: Let_def split: jsval.split)

section \<open>The constructors\<close>

lemma cellOf_map_upto:
  assumes "0 \<le> k" "k < n"
  shows "cellOf (map f [0..n - 1]) k = f k"
  using assms by (simp add: cellOf_def jsIndex_def nth_upto)

lemma jsIndex_map_upto:
  assumes "0 \<le> k" "k < n"
  shows "jsIndex (map f [0..n - 1]) k = Some (f k)"
  using assms by (simp add: jsIndex_def nth_upto)

lemma grid_ScalarField_new:
  "grid (ScalarField_new p) = arrayTo2d (zs p) (nRows p) (nCols p)"
  by (simp add: ScalarField_new_def Field_new_def Let_def)

lemma grid_VectorField_new:
  "grid (VectorField_new p) = arraysTo2d (us p) (vs p) (nRows p) (nCols p)"
  by (simp add: VectorField_new_def Field_new_def Let_def)

lemma gridAt_ScalarField_new:
  assumes "0 \<le> j" "j < nRows p" "0 \<le> i" "i < nCols p"
  shows "gridAt (ScalarField_new p) j i =
           (case cellOf (zs p) (j * nCols p + i) of Val z \<Rightarrow> Val z | _ \<Rightarrow> Null)"
  using assms
  by (simp add: gridAt_def grid_ScalarField_new arrayTo2d_def jsIndex_map_upto cellOf_map_upto
      isValid_def split: jsval.split)

lemma gridAt_VectorField_new:
  assumes "0 \<le> j" "j < nRows p" "0 \<le> i" "i < nCols p"
  shows "gridAt (VectorField_new p) j i =
           (case (cellOf (us p) (j * nCols p + i), cellOf (vs p) (j * nCols p + i)) of
              (Val a, Val b) \<Rightarrow> Val \<lparr>u = a, v = b\<rparr>
            | _ \<Rightarrow> Null)"
  using assms
  by (simp add: gridAt_def grid_VectorField_new arraysTo2d_def jsIndex_map_upto cellOf_map_upto)

lemma rows_arrayTo2d:
  "length (arrayTo2d arr nR nC) = nat nR \<and>
   (\<forall>row \<in> set (arrayTo2d arr nR nC). length row = nat nC \<and> Undefined \<notin> set row)"
  by (auto simp: arrayTo2d_def Let_def isValid_def)

lemma rows_arraysTo2d:
  "length (arraysTo2d ua va nR nC) = nat nR \<and>
   (\<forall>row \<in> set (arraysTo2d ua va nR nC). length row = nat nC \<and> Undefined \<notin> set row)"
  by (auto simp: arraysTo2d_def split: jsval.splits)

text \<open>
  A field built from a descriptor with positive dimensions and cell sizes is well-formed,
  whatever the length of its flat arrays; \<open>setFilter\<close> and \<open>setSpatialMask\<close> keep it so.
\<close>

lemma wellFormed_ScalarField_new:
  assumes "0 < nCols p" "0 < nRows p" "0 < cellXSize p" "0 < cellYSize p"
  shows "wellFormed (ScalarField_new p)"
  using assms rows_arrayTo2d[of "zs p" "nRows p" "nCols p"]
  by (simp add: wellFormed_def grid_ScalarField_new) (simp add: ScalarField_new_def Field_new_def Let_def)

lemma wellFormed_VectorField_new:
  assumes "0 < nCols p" "0 < nRows p" "0 < cellXSize p" "0 < cellYSize p"
  shows "wellFormed (VectorField_new p)"
  using assms rows_arraysTo2d[of "us p" "vs p" "nRows p" "nCols p"]
  by (simp add: wellFormed_def grid_VectorField_new) (simp add: VectorField_new_def Field_new_def Let_def)

lemma wellFormed_setFilter: "wellFormed (setFilter f fld) = wellFormed fld"
  by (simp add: wellFormed_def setFilter_def)

lemma wellFormed_setSpatialMask: "wellFormed (setSpatialMask m fld) = wellFormed fld"
  by (simp add: wellFormed_def setSpatialMask_def)

section \<open>The interpolation at a grid node\<close>

lemma doInterpolation_scalar_node: "doInterpolation_scalar 0 0 g00 g10 g01 g11 = g00"
  by (simp add: doInterpolation_scalar_def)

lemma doInterpolation_vector_node: "doInterpolation_vector 0 0 g00 g10 g01 g11 = g00"
  by (simp add: doInterpolation_vector_def)

text \<open>
  The nodes of the interpolation are the points whose fractional indexes are whole
  numbers \<open>(i, j)\<close>, the upper left corners of the cells: at such a point inside the
  field, with \<open>i\<close> and \<open>j\<close> inside the grid, the four surrounding grid values valid
  and the value of the node accepted by the filter (if one is set),
  \<open>interpolatedValueAt\<close> and \<open>valueAt\<close> both return the grid value at row \<open>j\<close> and
  column \<open>i\<close>.
\<close>

lemma interpolation_exact_at_whole_indexes:
  assumes inside: "contains fld lon lat"
    and idx: "getDecimalIndexes fld lon lat = (real_of_int i, real_of_int j)"
    and col: "0 \<le> i" "i < nCols fld"
    and row: "0 \<le> j" "j < nRows fld"
    and g00: "gridAt fld j i = Val g00"
    and g10: "gridAt fld j (if isContinuous fld \<and> nCols fld \<le> i + 1 then 0
                           else clampColumnIndex fld (i + 1)) = Val g10"
    and g01: "gridAt fld (clampRowIndex fld (j + 1)) i = Val g01"
    and g11: "gridAt fld (clampRowIndex fld (j + 1))
                (if isContinuous fld \<and> nCols fld \<le> i + 1 then 0
                 else clampColumnIndex fld (i + 1)) = Val g11"
    and flt: "case inFilter fld of None \<Rightarrow> True | Some p \<Rightarrow> p (Val g00)"
    and node: "\<And>a b c d. doInterpolation 0 0 a b c d = a"
  shows "interpolatedValueAt doInterpolation fld lon lat = Val g00 \<and>
         valueAt fld lon lat = Inr (Val g00)"
proof -
  from col have n: "0 < nCols fld" by simp
  have fj: "clampRowIndex fld j = j" using row by (rule clampRowIndex_id)
  have fi: "clampColumnIndex fld i = i" using col by (rule clampColumnIndex_id)
  have ip: "interpolatedValueAt doInterpolation fld lon lat =
            interpolatedValueAtIndexes doInterpolation fld (real_of_int i) (real_of_int j)"
    using inside idx by (simp add: interpolatedValueAt_def notContains_def)
  have iz: "interpolatedValueAtIndexes doInterpolation fld (real_of_int i) (real_of_int j) = Val g00"
    unfolding interpolatedValueAtIndexes_eq[OF n]
    using g00 g10 g01 g11 by (simp add: Let_def fj node)
  have vi: "valueAtIndexes fld i j = Inr (Val g00)"
    using g00 by (auto simp: valueAtIndexes_def gridAt_def split: option.splits)
  have "valueAt fld lon lat = Inr (Val g00)"
    using inside idx flt vi
    by (auto simp: valueAt_def notContains_def fi fj split: option.splits)
  with ip iz show ?thesis by simp
qed

section \<open>The step of a particle\<close>

lemma wellFormed_hasValueAt:
  assumes "wellFormed fld"
  shows "\<exists>b. hasValueAt fld lon lat = Inr b"
proof -
  from wellFormed_valueAt[OF assms] obtain z where "valueAt fld lon lat = Inr z" by blast
  from hasValueAt_of_valueAt[OF this] show ?thesis by blast
qed

text \<open>
  On a well-formed field \<open>sample\<close> throws no exception: it commits the step or forces
  the age to \<open>maxAge\<close>.
\<close>

lemma sample_cases:
  assumes "wellFormed fld"
  shows "sample opts fld q =
     (case valueAt fld (par_x q) (par_y q) of
        Inr (Val vec) \<Rightarrow>
          (let xt = par_x q + u vec * velocityScale opts;
               yt = par_y q + v vec * velocityScale opts
           in if hasValueAt fld xt yt = Inr True
              then Inr (q\<lparr>par_xt := Val xt, par_yt := Val yt, par_m := Val (magnitude vec)\<rparr>)
              else Inr (q\<lparr>par_age := maxAge opts\<rparr>))
      | _ \<Rightarrow> Inr (q\<lparr>par_age := maxAge opts\<rparr>))"
proof -
  from wellFormed_valueAt[OF assms] obtain z where
    z: "valueAt fld (par_x q) (par_y q) = Inr z" "z \<noteq> Undefined" by blast
  show ?thesis
  proof (cases z)
    case Undefined
    with z show ?thesis by simp
  next
    case Null
    with z show ?thesis by (simp add: sample_def)
  next
    case (Val vec)
    from wellFormed_hasValueAt[OF assms] obtain b where
      "hasValueAt fld (par_x q + u vec * velocityScale opts) (par_y q + v vec * velocityScale opts) = Inr b"
      by blast
    with z Val show ?thesis by (simp add: sample_def Let_def)
  qed
qed

lemma wellFormed_moveParticle:
  assumes "wellFormed fld"
  shows "\<exists>par'. moveParticle opts fld rnd par = Inr par'"
  unfolding moveParticle_def sample_cases[OF assms]
  by (simp add: Let_def split: sum.split jsval.split)

text \<open>
  A particle older than \<open>maxAge\<close> is moved to the random position before the field is
  sampled, and ends the step with the age 1 or \<open>maxAge + 1\<close>.
\<close>

lemma moveParticle_expired:
  assumes "wellFormed fld" "par_age par > maxAge opts"
  shows "\<exists>par'. moveParticle opts fld rnd par = Inr par' \<and>
           par_x par' = longitudeAtX fld (toInt32 (fst rnd * real_of_int (nCols fld))) \<and>
           par_y par' = latitudeAtY fld (toInt32 (snd rnd * real_of_int (nRows fld))) \<and>
           (par_age par' = 1 \<or> par_age par' = maxAge opts + 1)"
  unfolding moveParticle_def sample_cases[OF assms(1)] restart_def
  using assms(2)
  by (simp add: Let_def randomPosition_def split: sum.split jsval.split)

text \<open>The loop over the pool applies the step to each particle.\<close>

lemma moveParticles_each:
  assumes "wellFormed fld"
  shows "\<exists>paths'. moveParticles opts fld rnds k paths = Inr paths' \<and> length paths' = length paths \<and>
           (\<forall>n < length paths. moveParticle opts fld (rnds (k + n)) (paths ! n) = Inr (paths' ! n))"
proof (induction paths arbitrary: k)
  case Nil
  show ?case by simp
next
  case (Cons par paths)
  from wellFormed_moveParticle[OF assms] obtain par' where
    p: "moveParticle opts fld (rnds k) par = Inr par'"
    by blast
  from Cons.IH[of "Suc k"] obtain paths' where
    ps: "moveParticles opts fld rnds (Suc k) paths = Inr paths'" "length paths' = length paths"
      "\<forall>n < length paths. moveParticle opts fld (rnds (Suc k + n)) (paths ! n) = Inr (paths' ! n)"
    by blast
  have "\<forall>n < length (par # paths).
          moveParticle opts fld (rnds (k + n)) ((par # paths) ! n) = Inr ((par' # paths') ! n)"
  proof (intro allI impI)
    fix n assume "n < length (par # paths)"
    then show "moveParticle opts fld (rnds (k + n)) ((par # paths) ! n) = Inr ((par' # paths') ! n)"
      using p ps(3) by (cases n) simp_all
  qed
  with p ps(1,2) show ?case by simp
qed

section \<open>The claims\<close>

subsection \<open>Claim C1\<close>

text \<open>
  Claim C1. For the 2 x 2 scalar field of the scenario, \<open>valueAt(0.5, 1.5)\<close> is 1, the
  value of the upper left cell, as the claim says. The claim goes on:
  \<open>interpolatedValueAt(1.0, 1.0)\<close>, at the corner that the four cells share, is 2.5,
  the average of the four values. \<open>_longitudeAtX\<close>, \<open>getCells\<close> and \<open>valueAt\<close> place
  each value at the centre of its cell, and between the four centres that average is
  what a bilinear blend gives. The interpolation of the code places the values at the
  upper left corners of the cells instead: the point (1.0, 1.0) has the fractional
  indexes (1, 1), the floor indexes are the last column and the last row, the ceiling
  indexes are clamped onto them, and the result is the value 4 of the lower right cell
  alone. The theorem evaluates the code at the two points of the scenario.
\<close>

theorem C1_interpolation_at_shared_corner:
  "valueAt grid2x2 (1/2) (3/2) = Inr (Val 1) \<and>
   getDecimalIndexes grid2x2 1 1 = (1, 1) \<and>
   getFourSurroundingIndexes grid2x2 1 1 = (1, 1, 1, 1) \<and>
   interpolatedValueAt doInterpolation_scalar grid2x2 1 1 = Val 4 \<and>
   interpolatedValueAt doInterpolation_scalar grid2x2 1 1 \<noteq> Val (5/2)"
  by (simp add: grid2x2_eq field_defs doInterpolation_scalar_def)

subsection \<open>Claim C2\<close>

text \<open>
  Claim C2. The claim: at the exact centre of a grid cell whose surrounding data is valid,
  \<open>interpolatedValueAt\<close> equals \<open>valueAt\<close>. The centre of the upper left cell of
  the 2 x 2 field, as \<open>_lonLatAtIndexes\<close> gives it, is (0.5, 1.5). The interpolation of
  the code gives that point the fractional indexes (0.5, 0.5), half way between the four
  grid values, all valid, and returns their average 2.5, where \<open>valueAt\<close> returns the
  value 1 of the cell: the values are placed at the upper left corners of the cells, half
  a cell away from the centres where the rest of the code has them (lemma
  \<open>interpolation_exact_at_whole_indexes\<close> shows the two methods agree at those corners).
  The theorem evaluates the code at the centre of the cell.
\<close>

theorem C2_interpolation_at_cell_centre:
  "lonLatAtIndexes grid2x2 0 0 = (1/2, 3/2) \<and>
   valueAt grid2x2 (1/2) (3/2) = Inr (Val 1) \<and>
   getDecimalIndexes grid2x2 (1/2) (3/2) = (1/2, 1/2) \<and>
   interpolatedValueAt doInterpolation_scalar grid2x2 (1/2) (3/2) = Val (5/2) \<and>
   valueAt grid2x2 (1/2) (3/2) \<noteq> Inr (interpolatedValueAt doInterpolation_scalar grid2x2 (1/2) (3/2))"
  by (simp add: grid2x2_eq field_defs doInterpolation_scalar_def lonLatAtIndexes_def
      longitudeAtX_def latitudeAtY_def)

subsection \<open>Claim C3\<close>

text \<open>
  Claim C3. The claim: an index outside the grid is clamped to the border, in the
  nearest-cell lookup of \<open>valueAt\<close> and in each of the four indexes of the
  interpolation alike, so that a query beyond the border yields the value of the border
  column or row. \<open>_getFourSurroundingIndexes\<close> clamps \<open>ci\<close>, \<open>fj\<close> and \<open>cj\<close> but
  not \<open>fi\<close>. At the right edge of the 2 x 2 field, longitude 2, the index \<open>fi\<close> is 2,
  outside the grid: the interpolation finds no value there and returns null, where
  \<open>valueAt\<close> returns the value 2 of the border column.
\<close>

theorem C3_floor_column_index_not_clamped:
  "getFourSurroundingIndexes grid2x2 2 (1/2) = (2, 1, 0, 1) \<and>
   interpolatedValueAt doInterpolation_scalar grid2x2 2 (3/2) = Null \<and>
   valueAt grid2x2 2 (3/2) = Inr (Val 2)"
  by (simp add: grid2x2_eq field_defs doInterpolation_scalar_def)

subsection \<open>Claim C4\<close>




subsection \<open>Claim C5\<close>

text \<open>
  Claim C5. For a field whose upper right longitude exceeds 180, \<open>extent\<close> returns the
  longitudes - 180 and 180 when the field is continuous (it spans 360 degrees or more),
  and both corner longitudes less 360 when it is not; the latitudes are the corners
  \<open>yllCorner\<close> and \<open>yurCorner\<close> in both cases.
\<close>

theorem C5_extent_wrapped:
  assumes "geometryDerived fld" and "xurCorner fld > 180"
  shows "extent fld =
     (if xurCorner fld - xllCorner fld \<ge> 360
      then [- 180, yllCorner fld, 180, yurCorner fld]
      else [xllCorner fld - 360, yllCorner fld, xurCorner fld - 360, yurCorner fld])"
  using assms by (simp add: geometryDerived_def extent_def getWrappedLongitudes_def)

text \<open>
  Witness for C5: \<open>globe2x1\<close> is continuous, \<open>pacific2x1\<close> is not, and both have an
  upper right longitude beyond 180.
\<close>

theorem C5_extent_wrapped_witness:
  "geometryDerived globe2x1 \<and> xurCorner globe2x1 > 180 \<and> extent globe2x1 = [- 180, 0, 180, 10] \<and>
   geometryDerived pacific2x1 \<and> xurCorner pacific2x1 > 180 \<and> extent pacific2x1 = [- 260, 0, - 160, 10]"
proof -
  have g: "geometryDerived globe2x1" "geometryDerived pacific2x1"
    by (simp_all add: globe2x1_def pacific2x1_def geometryDerived_ScalarField_new)
  have x: "xurCorner globe2x1 > 180" "xurCorner pacific2x1 > 180"
    by (simp_all add: globe2x1_eq pacific2x1_eq)
  show ?thesis
    using g x C5_extent_wrapped [OF g(1) x(1)] C5_extent_wrapped [OF g(2) x(2)]
    by (simp add: globe2x1_eq pacific2x1_eq)
qed

subsection \<open>Claim C6\<close>

text \<open>
  Claim C6. The claim: a particle older than \<open>maxAge\<close> is respawned and its advance is
  skipped for that tick; only a particle whose advance succeeds has its age incremented.
  In the code the respawned particle goes on through the same iteration: \<open>oldParticle\<close>
  is moved to the random position (0.5, 1.5), the field is sampled there, the next
  position and the magnitude are committed, and the age ends at 1, not 0. And the
  increment closes every iteration: \<open>strandedParticle\<close>, whose advance fails, ends with
  the age \<open>maxAge + 1\<close>.
\<close>

theorem C6_respawn_not_skipped_counterexample:
  "par_age oldParticle > maxAge defaultOptions \<and>
   moveParticle defaultOptions wind3x2 (0, 0) oldParticle =
     Inr \<lparr> par_x = 1/2, par_y = 3/2, par_xt = Val (2501/5000), par_yt = Val (3/2),
           par_m = Val 1, par_age = 1 \<rparr> \<and>
   moveParticle defaultOptions wind3x2 (0, 0) oldParticle \<noteq>
     Inr \<lparr> par_x = 1/2, par_y = 3/2, par_xt = Undefined, par_yt = Undefined,
           par_m = Undefined, par_age = 0 \<rparr> \<and>
   moveParticle defaultOptions wind3x2 (0, 0) strandedParticle =
     Inr \<lparr> par_x = 5/2, par_y = 1/2, par_xt = Undefined, par_yt = Undefined,
           par_m = Undefined, par_age = 201 \<rparr>"
  by (simp add: moveParticle_def sample_def restart_def randomPosition_def toInt32_def
      longitudeAtX_def latitudeAtY_def oldParticle_def strandedParticle_def defaultOptions_def
      magnitude_def wind3x2_eq field_defs Let_def)

text \<open>
  Claim C6, amended. On a well-formed field a tick moves a particle without an
  exception. A particle whose age exceeds \<open>maxAge\<close> is first respawned (age 0, a new
  random position) and then treated in the same tick like every other particle, from its
  new position \<open>q\<close>. When the field has a value at \<open>q\<close> and at the next position, the
  next position and the magnitude are committed and the age is incremented by 1 (to 1
  for a respawned particle); otherwise the next position and the magnitude stay as they
  were and the age becomes \<open>maxAge + 1\<close>.
\<close>

theorem C6_particle_step:
  assumes "wellFormed fld"
  shows "\<exists>par'. moveParticle opts fld rnd par = Inr par' \<and>
     (let q = (if par_age par > maxAge opts
               then randomPosition fld rnd (par\<lparr>par_age := 0\<rparr>) else par)
      in case valueAt fld (par_x q) (par_y q) of
           Inr (Val vec) \<Rightarrow>
             (let xt = par_x q + u vec * velocityScale opts;
                  yt = par_y q + v vec * velocityScale opts
              in if hasValueAt fld xt yt = Inr True
                 then par' = q\<lparr>par_xt := Val xt, par_yt := Val yt,
                                par_m := Val (magnitude vec), par_age := par_age q + 1\<rparr>
                 else par' = q\<lparr>par_age := maxAge opts + 1\<rparr>)
         | _ \<Rightarrow> par' = q\<lparr>par_age := maxAge opts + 1\<rparr>)"
  unfolding moveParticle_def sample_cases[OF assms] restart_def
  by (simp add: Let_def split: sum.split jsval.split)

text \<open>
  Witness for C6: the step of \<open>oldParticle\<close> in the well-formed field \<open>wind3x2\<close>.
\<close>

theorem C6_particle_step_witness:
  "wellFormed wind3x2 \<and>
   moveParticle defaultOptions wind3x2 (0, 0) oldParticle =
     Inr \<lparr> par_x = 1/2, par_y = 3/2, par_xt = Val (2501/5000), par_yt = Val (3/2),
           par_m = Val 1, par_age = 1 \<rparr>"
proof -
  have v: "valueAt wind3x2 (1/2) (3/2) = Inr (Val \<lparr>u = 1, v = 0\<rparr>)"
    by (simp add: wind3x2_eq field_defs)
  have h: "hasValueAt wind3x2 (2501/5000) (3/2) = Inr True"
    by (simp add: wind3x2_eq field_defs)
  have r: "randomPosition wind3x2 (0, 0) (oldParticle\<lparr>par_age := 0\<rparr>) =
           \<lparr> par_x = 1/2, par_y = 3/2, par_xt = Undefined, par_yt = Undefined,
             par_m = Undefined, par_age = 0 \<rparr>"
    by (simp add: randomPosition_def toInt32_def longitudeAtX_def latitudeAtY_def
        oldParticle_def wind3x2_eq)
  have a: "par_age oldParticle = 201" "maxAge defaultOptions = 200"
      "velocityScale defaultOptions = 1 / 5000"
    by (simp_all add: oldParticle_def defaultOptions_def)
  have m: "magnitude \<lparr>u = 1, v = 0\<rparr> = 1"
    by (simp add: magnitude_def)
  from C6_particle_step [OF wellFormed_wind3x2, of defaultOptions "(0, 0)" oldParticle]
  obtain par' where
    "moveParticle defaultOptions wind3x2 (0, 0) oldParticle = Inr par'"
    "par' = \<lparr> par_x = 1/2, par_y = 3/2, par_xt = Val (2501/5000), par_yt = Val (3/2),
             par_m = Val 1, par_age = 1 \<rparr>"
    by (auto simp: a r v h m Let_def)
  with wellFormed_wind3x2 show ?thesis by simp
qed

subsection \<open>Claim C7\<close>

text \<open>
  Claim C7. On a well-formed field: when the field has no valid value at the position
  of the particle (its new position, if the tick respawns it), or none at the next
  position \<open>x + u * velocityScale\<close>, \<open>y + v * velocityScale\<close>, the sampling forces
  the age to \<open>maxAge\<close> and changes nothing else, and the increment that closes the tick
  leaves the age at \<open>maxAge + 1\<close>. Every particle whose age exceeds \<open>maxAge\<close>,
  whatever its other attributes, is respawned by the next tick under every outcome of the
  random draw: it is moved to the random position and its age restarts, ending that tick
  at 1, or at \<open>maxAge + 1\<close> again when the new position has no valid sample either, in
  which case the tick after that respawns it once more. So an age above \<open>maxAge\<close> is
  met by a respawn in the very next tick, and no particle stays at a position without a
  valid sample.
\<close>

theorem C7_invalid_sample_forces_respawn:
  assumes wf: "wellFormed fld"
    and invalid:
      "valueAt fld (par_x (restart opts fld rnd par)) (par_y (restart opts fld rnd par)) = Inr Null \<or>
       (\<exists>vec. valueAt fld (par_x (restart opts fld rnd par)) (par_y (restart opts fld rnd par))
                = Inr (Val vec) \<and>
              hasValueAt fld (par_x (restart opts fld rnd par) + u vec * velocityScale opts)
                             (par_y (restart opts fld rnd par) + v vec * velocityScale opts)
                = Inr False)"
  shows "sample opts fld (restart opts fld rnd par) =
           Inr ((restart opts fld rnd par)\<lparr>par_age := maxAge opts\<rparr>) \<and>
         moveParticle opts fld rnd par =
           Inr ((restart opts fld rnd par)\<lparr>par_age := maxAge opts + 1\<rparr>) \<and>
         (\<forall>next rnd'. par_age next > maxAge opts \<longrightarrow>
            (\<exists>par''. moveParticle opts fld rnd' next = Inr par'' \<and>
               par_x par'' = longitudeAtX fld (toInt32 (fst rnd' * real_of_int (nCols fld))) \<and>
               par_y par'' = latitudeAtY fld (toInt32 (snd rnd' * real_of_int (nRows fld))) \<and>
               (par_age par'' = 1 \<or> par_age par'' = maxAge opts + 1)))"
proof -
  let ?q = "restart opts fld rnd par"
  have s: "sample opts fld ?q = Inr (?q\<lparr>par_age := maxAge opts\<rparr>)"
    using invalid unfolding sample_cases[OF wf] by (auto simp: Let_def)
  then have m: "moveParticle opts fld rnd par = Inr (?q\<lparr>par_age := maxAge opts + 1\<rparr>)"
    by (simp add: moveParticle_def)
  have nxt: "\<forall>next rnd'. par_age next > maxAge opts \<longrightarrow>
              (\<exists>par''. moveParticle opts fld rnd' next = Inr par'' \<and>
                 par_x par'' = longitudeAtX fld (toInt32 (fst rnd' * real_of_int (nCols fld))) \<and>
                 par_y par'' = latitudeAtY fld (toInt32 (snd rnd' * real_of_int (nRows fld))) \<and>
                 (par_age par'' = 1 \<or> par_age par'' = maxAge opts + 1))"
  proof (intro allI impI)
    fix "next" :: Particle and rnd' :: "real \<times> real"
    assume "par_age next > maxAge opts"
    from moveParticle_expired[OF wf this]
    show "\<exists>par''. moveParticle opts fld rnd' next = Inr par'' \<and>
                 par_x par'' = longitudeAtX fld (toInt32 (fst rnd' * real_of_int (nCols fld))) \<and>
                 par_y par'' = latitudeAtY fld (toInt32 (snd rnd' * real_of_int (nRows fld))) \<and>
                 (par_age par'' = 1 \<or> par_age par'' = maxAge opts + 1)" .
  qed
  from s m nxt show ?thesis by blast
qed

text \<open>
  Witness for C7: \<open>strandedParticle\<close> sits in the cell without data; \<open>edgeParticle\<close>
  has a value at its position on the right edge, and its next position is outside the
  field.
\<close>

theorem C7_invalid_sample_forces_respawn_witness:
  "wellFormed wind3x2 \<and>
   valueAt wind3x2 (par_x (restart defaultOptions wind3x2 (0, 0) strandedParticle))
                   (par_y (restart defaultOptions wind3x2 (0, 0) strandedParticle)) = Inr Null \<and>
   moveParticle defaultOptions wind3x2 (0, 0) strandedParticle =
     Inr (strandedParticle\<lparr>par_age := 201\<rparr>) \<and>
   valueAt wind3x2 (par_x (restart defaultOptions wind3x2 (0, 0) edgeParticle))
                   (par_y (restart defaultOptions wind3x2 (0, 0) edgeParticle))
     = Inr (Val \<lparr>u = 1, v = 0\<rparr>) \<and>
   hasValueAt wind3x2 (3 + 1 * velocityScale defaultOptions) (3/2 + 0 * velocityScale defaultOptions)
     = Inr False \<and>
   moveParticle defaultOptions wind3x2 (0, 0) edgeParticle =
     Inr (edgeParticle\<lparr>par_age := 201\<rparr>)"
proof -
  have rs: "restart defaultOptions wind3x2 (0, 0) strandedParticle = strandedParticle"
    by (simp add: restart_def strandedParticle_def defaultOptions_def)
  have re: "restart defaultOptions wind3x2 (0, 0) edgeParticle = edgeParticle"
    by (simp add: restart_def edgeParticle_def defaultOptions_def)
  have vs: "valueAt wind3x2 (par_x strandedParticle) (par_y strandedParticle) = Inr Null"
    by (simp add: strandedParticle_def wind3x2_eq field_defs)
  have ve: "valueAt wind3x2 (par_x edgeParticle) (par_y edgeParticle) = Inr (Val \<lparr>u = 1, v = 0\<rparr>)"
    by (simp add: edgeParticle_def wind3x2_eq field_defs)
  have he: "hasValueAt wind3x2 (par_x edgeParticle + u \<lparr>u = 1, v = 0\<rparr> * velocityScale defaultOptions)
                               (par_y edgeParticle + v \<lparr>u = 1, v = 0\<rparr> * velocityScale defaultOptions)
            = Inr False"
    by (simp add: edgeParticle_def defaultOptions_def wind3x2_eq field_defs)
  have o: "maxAge defaultOptions + 1 = 201"
    by (simp add: defaultOptions_def)
  have ms: "moveParticle defaultOptions wind3x2 (0, 0) strandedParticle =
            Inr (strandedParticle\<lparr>par_age := 201\<rparr>)"
    using C7_invalid_sample_forces_respawn [OF wellFormed_wind3x2,
        of defaultOptions "(0, 0)" strandedParticle] vs
    unfolding rs o by blast
  have me: "moveParticle defaultOptions wind3x2 (0, 0) edgeParticle =
            Inr (edgeParticle\<lparr>par_age := 201\<rparr>)"
    using C7_invalid_sample_forces_respawn [OF wellFormed_wind3x2,
        of defaultOptions "(0, 0)" edgeParticle] ve he
    unfolding re o by blast
  from he have he': "hasValueAt wind3x2 (3 + 1 * velocityScale defaultOptions)
                       (3/2 + 0 * velocityScale defaultOptions) = Inr False"
    by (simp add: edgeParticle_def)
  from wellFormed_wind3x2 rs re vs ve he' ms me show ?thesis by simp
qed

subsection \<open>Claim C8\<close>

text \<open>
  Claim C8. On a well-formed field, at every point (inside the extent or not, with or
  without a filter), \<open>valueAt\<close> returns a result \<open>z\<close> without an exception, and
  \<open>hasValueAt\<close> returns true exactly when \<open>z\<close> is a valid value (not null).
\<close>

theorem C8_hasValueAt_iff_valueAt_valid:
  assumes "wellFormed fld"
  shows "\<exists>z. valueAt fld lon lat = Inr z \<and> hasValueAt fld lon lat = Inr (isValid z)"
proof -
  from wellFormed_valueAt[OF assms] obtain z where
    z: "valueAt fld lon lat = Inr z" "z \<noteq> Undefined"
    by blast
  from hasValueAt_of_valueAt[OF z(1)] z(2) have "hasValueAt fld lon lat = Inr (isValid z)"
    by (simp add: isValid_def)
  with z(1) show ?thesis by blast
qed

text \<open>
  Witness for C8: the vector field \<open>wind3x2\<close> is well-formed; the theorem is used at
  the centre of its upper left cell, which has a value, and at the centre of the last
  cell of its lower row, which has none.
\<close>

theorem C8_hasValueAt_iff_valueAt_valid_witness:
  "wellFormed wind3x2 \<and>
   (\<exists>z. valueAt wind3x2 (1/2) (3/2) = Inr z \<and> hasValueAt wind3x2 (1/2) (3/2) = Inr (isValid z)) \<and>
   hasValueAt wind3x2 (1/2) (3/2) = Inr True \<and>
   (\<exists>z. valueAt wind3x2 (5/2) (1/2) = Inr z \<and> hasValueAt wind3x2 (5/2) (1/2) = Inr (isValid z)) \<and>
   hasValueAt wind3x2 (5/2) (1/2) = Inr False"
proof -
  have a: "hasValueAt wind3x2 (1/2) (3/2) = Inr True"
    by (simp add: wind3x2_eq field_defs)
  have b: "hasValueAt wind3x2 (5/2) (1/2) = Inr False"
    by (simp add: wind3x2_eq field_defs)
  show ?thesis
    using wellFormed_wind3x2 a b
      C8_hasValueAt_iff_valueAt_valid [OF wellFormed_wind3x2, of "1/2" "3/2"]
      C8_hasValueAt_iff_valueAt_valid [OF wellFormed_wind3x2, of "5/2" "1/2"]
    by simp
qed

subsection \<open>Claim C9\<close>

text \<open>
  Claim C9. The claim: a descriptor whose dimensions do not match the length of its
  flat array makes the constructor fail with an error. The constructors check nothing:
  from three values for 2 x 2 cells they build the grid, with null in the cell that the
  array does not reach.
\<close>

theorem C9_short_array_counterexample:
  "nRows shortScalar * nCols shortScalar \<noteq> int (length (zs shortScalar)) \<and>
   grid (ScalarField_new shortScalar) = [[Val 1, Val 2], [Val 3, Null]] \<and>
   nRows shortVector * nCols shortVector \<noteq> int (length (us shortVector)) \<and>
   grid (VectorField_new shortVector) =
     [[Val \<lparr>u = 1, v = 4\<rparr>, Val \<lparr>u = 2, v = 5\<rparr>], [Val \<lparr>u = 3, v = 6\<rparr>, Null]]"
  by (simp add: shortScalar_def shortVector_def ScalarField_new_def VectorField_new_def
      Field_new_def arrayTo2d_def arraysTo2d_def cellOf_def jsIndex_def isValid_def upto.simps)

text \<open>
  Claim C9, amended. The constructors of ScalarField and VectorField have no failure:
  for every descriptor they build a grid of \<open>nRows\<close> rows of \<open>nCols\<close> cells, filled
  row by row from the flat arrays. The cell at row \<open>j\<close> and column \<open>i\<close> holds the
  array entry at the position \<open>j * nCols + i\<close> when that entry is valid, and null
  otherwise, in particular when the array ends before that position; entries beyond
  \<open>nRows * nCols\<close> do not enter the grid.
\<close>

theorem C9_constructors_fill_grid:
  "length (grid (ScalarField_new sp)) = nat (nRows sp) \<and>
   (\<forall>row \<in> set (grid (ScalarField_new sp)). length row = nat (nCols sp)) \<and>
   (\<forall>j i. 0 \<le> j \<and> j < nRows sp \<and> 0 \<le> i \<and> i < nCols sp \<longrightarrow>
      gridAt (ScalarField_new sp) j i =
        (case cellOf (zs sp) (j * nCols sp + i) of Val z \<Rightarrow> Val z | _ \<Rightarrow> Null)) \<and>
   length (grid (VectorField_new vp)) = nat (nRows vp) \<and>
   (\<forall>row \<in> set (grid (VectorField_new vp)). length row = nat (nCols vp)) \<and>
   (\<forall>j i. 0 \<le> j \<and> j < nRows vp \<and> 0 \<le> i \<and> i < nCols vp \<longrightarrow>
      gridAt (VectorField_new vp) j i =
        (case (cellOf (us vp) (j * nCols vp + i), cellOf (vs vp) (j * nCols vp + i)) of
           (Val a, Val b) \<Rightarrow> Val \<lparr>u = a, v = b\<rparr>
         | _ \<Rightarrow> Null))"
  using rows_arrayTo2d [of "zs sp" "nRows sp" "nCols sp"]
    rows_arraysTo2d [of "us vp" "vs vp" "nRows vp" "nCols vp"]
  by (simp add: grid_ScalarField_new grid_VectorField_new gridAt_ScalarField_new
      gridAt_VectorField_new)

text \<open>
  Witness for C9: the descriptors with three values. The cell at row 0 and column 1
  holds the second value; the array does not reach the cell at row 1 and column 1, which
  is null.
\<close>

theorem C9_constructors_fill_grid_witness:
  "gridAt (ScalarField_new shortScalar) 0 1 = Val 2 \<and>
   gridAt (ScalarField_new shortScalar) 1 1 = Null \<and>
   gridAt (VectorField_new shortVector) 0 1 = Val \<lparr>u = 2, v = 5\<rparr> \<and>
   gridAt (VectorField_new shortVector) 1 1 = Null"
proof -
  note c = C9_constructors_fill_grid [of shortScalar shortVector]
  have s: "nRows shortScalar = 2" "nCols shortScalar = 2" "zs shortScalar = [Val 1, Val 2, Val 3]"
    by (simp_all add: shortScalar_def)
  have w: "nRows shortVector = 2" "nCols shortVector = 2" "us shortVector = [Val 1, Val 2, Val 3]"
      "vs shortVector = [Val 4, Val 5, Val 6]"
    by (simp_all add: shortVector_def)
  from c have cs: "\<forall>j i. 0 \<le> j \<and> j < nRows shortScalar \<and> 0 \<le> i \<and> i < nCols shortScalar \<longrightarrow>
      gridAt (ScalarField_new shortScalar) j i =
        (case cellOf (zs shortScalar) (j * nCols shortScalar + i) of Val z \<Rightarrow> Val z | _ \<Rightarrow> Null)"
    by blast
  from c have cv: "\<forall>j i. 0 \<le> j \<and> j < nRows shortVector \<and> 0 \<le> i \<and> i < nCols shortVector \<longrightarrow>
      gridAt (VectorField_new shortVector) j i =
        (case (cellOf (us shortVector) (j * nCols shortVector + i),
               cellOf (vs shortVector) (j * nCols shortVector + i)) of
           (Val a, Val b) \<Rightarrow> Val \<lparr>u = a, v = b\<rparr>
         | _ \<Rightarrow> Null)"
    by blast
  have "gridAt (ScalarField_new shortScalar) 0 1 = Val 2"
    using cs [rule_format, of 0 1] by (simp add: s cellOf_def jsIndex_def)
  moreover have "gridAt (ScalarField_new shortScalar) 1 1 = Null"
    using cs [rule_format, of 1 1] by (simp add: s cellOf_def jsIndex_def)
  moreover have "gridAt (VectorField_new shortVector) 0 1 = Val \<lparr>u = 2, v = 5\<rparr>"
    using cv [rule_format, of 0 1] by (simp add: w cellOf_def jsIndex_def)
  moreover have "gridAt (VectorField_new shortVector) 1 1 = Null"
    using cv [rule_format, of 1 1] by (simp add: w cellOf_def jsIndex_def)
  ultimately show ?thesis by simp
qed

subsection \<open>Claim C10\<close>

text \<open>
  Claim C10. Whatever filter \<open>setFilter\<close> installs, \<open>interpolatedValueAt\<close> returns at
  every point what it returns with no filter, and what it returned before the call: the
  interpolation reads the grid, never the filter.
\<close>

theorem C10_interpolation_ignores_filter:
  "interpolatedValueAt doInterpolation (setFilter f fld) lon lat =
     interpolatedValueAt doInterpolation (setFilter None fld) lon lat \<and>
   interpolatedValueAt doInterpolation (setFilter f fld) lon lat =
     interpolatedValueAt doInterpolation fld lon lat"
  by (simp add: setFilter_def filter_interpolatedValueAt)

end
